theory Spec2Isabelle
  imports Complex_Main "HOL-Library.Finite_Map"
begin

text \<open>
  A model of the module \<^verbatim>\<open>dlnap/__init__.py\<close>: the XML parser
  (\<^verbatim>\<open>_get_tag_value\<close>, \<^verbatim>\<open>_xml2dict\<close>), the path query (\<^verbatim>\<open>_xpath\<close>), the
  class \<^verbatim>\<open>DLNADevice\<close> with its control packets, the control channel
  (\<^verbatim>\<open>_send_tcp\<close>) and the discovery (\<^verbatim>\<open>get_dlnas\<close>). Exceptions are values
  of a sum type, and what the network, the clock and the interpreter do is an argument of
  the functions that depend on it.
\<close>

section \<open>Python strings\<close>

text \<open>
  A Python \<^verbatim>\<open>str\<close> is a sequence of Unicode code points. It is modelled as a
  \<^typ>\<open>string\<close> in which every \<^typ>\<open>char\<close> stands for one code point in the
  range U+0000 .. U+00FF, so \<^const>\<open>length\<close> is Python's \<^verbatim>\<open>len\<close>.
  The functions of this section are the methods of \<^verbatim>\<open>str\<close> that the module calls.
\<close>

text \<open>\<^verbatim>\<open>str.isspace\<close> on one code point below U+0100.\<close>

definition isspace :: "char \<Rightarrow> bool" where
  "isspace c =
     (c = CHR 0x09 \<or> c = CHR 0x0A \<or> c = CHR 0x0B \<or> c = CHR 0x0C \<or> c = CHR 0x0D \<or>
      c = CHR 0x1C \<or> c = CHR 0x1D \<or> c = CHR 0x1E \<or> c = CHR 0x1F \<or> c = CHR 0x20 \<or>
      c = CHR 0x85 \<or> c = CHR 0xA0)"

text \<open>\<^verbatim>\<open>s.strip()\<close>: white space removed at both ends.\<close>

definition strip :: "string \<Rightarrow> string" where
  "strip s = dropWhile isspace (rev (dropWhile isspace (rev s)))"

text \<open>\<^verbatim>\<open>s.startswith(p)\<close> and \<^verbatim>\<open>s.endswith(p)\<close>.\<close>

definition startswith :: "string \<Rightarrow> string \<Rightarrow> bool" where
  "startswith s p = (take (length p) s = p)"

definition endswith :: "string \<Rightarrow> string \<Rightarrow> bool" where
  "endswith s p = (length p \<le> length s \<and> drop (length s - length p) s = p)"

text \<open>
  \<^verbatim>\<open>s.replace(old, new)\<close>: every occurrence of \<open>old\<close>, found from the left
  and not overlapping, becomes \<open>new\<close>. For an empty \<open>old\<close> Python puts \<open>new\<close>
  before every character and at the end.
\<close>

function replace :: "string \<Rightarrow> string \<Rightarrow> string \<Rightarrow> string" where
  "replace s old new =
     (if old = [] then concat (map (\<lambda>c. new @ [c]) s) @ new
      else if s = [] then []
      else if startswith s old then new @ replace (drop (length old) s) old new
      else hd s # replace (tl s) old new)"
  by pat_completeness auto
termination
  by (relation "measure (\<lambda>(s, old, new). length s)") auto

declare replace.simps [simp del]

text \<open>\<^verbatim>\<open>s.split(sep)\<close> for a separator of one character: never an empty list.\<close>

fun split_on :: "char \<Rightarrow> string \<Rightarrow> string list" where
  "split_on sep [] = [[]]"
| "split_on sep (c # cs) =
     (if c = sep then [] # split_on sep cs
      else (case split_on sep cs of
              [] \<Rightarrow> [[c]]
            | p # ps \<Rightarrow> (c # p) # ps))"

text \<open>\<^verbatim>\<open>t in s\<close> on two strings: \<open>t\<close> occurs in \<open>s\<close> as a contiguous piece.\<close>

fun contains_str :: "string \<Rightarrow> string \<Rightarrow> bool" where
  "contains_str [] t = (t = [])"
| "contains_str (c # cs) t = (startswith (c # cs) t \<or> contains_str cs t)"

section \<open>The XML parser\<close>

text \<open>
  The tree \<^verbatim>\<open>_xml2dict\<close> builds: a dictionary from a tag to the list of its
  children, a child being a string or a dictionary again. \<open>Str\<close> is a Python string,
  \<open>Dict\<close> a Python \<^verbatim>\<open>dict\<close>, whose equality does not depend on the order of its keys.
\<close>

datatype xml = Str string | Dict "(string, xml list) fmap"

type_synonym xml_dict = "(string, xml list) fmap"

subsection \<open>\<^verbatim>\<open>_get_tag_value\<close>\<close>

text \<open>
  The loop after \<^verbatim>\<open><?\<close>:
  \<^verbatim>\<open>while i < len(x) and x[i] != '<': i += 1\<close>
\<close>

function skip_decl :: "string \<Rightarrow> nat \<Rightarrow> nat" where
  "skip_decl x i = (if i < length x \<and> x ! i \<noteq> CHR ''<'' then skip_decl x (i + 1) else i)"
  by pat_completeness auto
termination
  by (relation "measure (\<lambda>(x, i). length x - i)") auto

declare skip_decl.simps [simp del]

text \<open>
  The loop that reads a tag name (the same loop stands twice in the source):
  \<^verbatim>\<open>
  while i < len(x) and x[i] != '>':
      if x[i] == ' ': in_attr = True
      if not in_attr: tag += x[i]
      i += 1
  \<close>
  It returns the final \<open>i\<close> and \<open>tag\<close>.
\<close>

function read_tag :: "string \<Rightarrow> nat \<Rightarrow> bool \<Rightarrow> string \<Rightarrow> nat \<times> string" where
  "read_tag x i in_attr tag =
     (if i < length x \<and> x ! i \<noteq> CHR ''>'' then
        let in_attr' = (if x ! i = CHR '' '' then True else in_attr);
            tag' = (if \<not> in_attr' then tag @ [x ! i] else tag)
        in read_tag x (i + 1) in_attr' tag'
      else (i, tag))"
  by pat_completeness auto
termination
  by (relation "measure (\<lambda>(x, i, in_attr, tag). length x - i)") auto

declare read_tag.simps [simp del]

text \<open>
  The loop that collects the content up to the closing tag:
  \<^verbatim>\<open>
  while i < len(x):
      value += x[i]
      if x[i] == '>' and value.endswith('</' + tag + '>'):
          close_tag_len = len(tag) + 2
          value = value[:-close_tag_len]
          break
      i += 1
  \<close>
  It returns the final \<open>i\<close> and \<open>value\<close>.
\<close>

function scan_value :: "string \<Rightarrow> string \<Rightarrow> nat \<Rightarrow> string \<Rightarrow> nat \<times> string" where
  "scan_value x tag i val =
     (if i < length x then
        let val' = val @ [x ! i] in
        if x ! i = CHR ''>'' \<and> endswith val' (''</'' @ tag @ ''>'')
        then (i, take (length val' - (length tag + 2)) val')
        else scan_value x tag (i + 1) val'
      else (i, val))"
  by pat_completeness auto
termination
  by (relation "measure (\<lambda>(x, tag, i, val). length x - i)") auto

declare scan_value.simps [simp del]

text \<open>
  \<^verbatim>\<open>_get_tag_value(x, i)\<close> returns \<^verbatim>\<open>(tag, value, rest)\<close>. The slices
  \<^verbatim>\<open>x[i:]\<close> and \<^verbatim>\<open>x[i + 1:]\<close> are \<^const>\<open>drop\<close>, and
  \<^verbatim>\<open>value[:-1]\<close> is \<^const>\<open>butlast\<close>.
\<close>

definition get_tag_value :: "string \<Rightarrow> nat \<Rightarrow> string \<times> string \<times> string" where
  "get_tag_value x0 i0 =
     (let x = strip x0;
          i = (if startswith (drop i0 x) ''<?'' then skip_decl x (i0 + 2) else i0)
      in if startswith (drop i x) ''</'' then
           (let (j, tag) = read_tag x (i + 2) False [] in (strip tag, [], drop (j + 1) x))
         else if \<not> startswith (drop i x) ''<'' then ([], drop i x, [])
         else
           (let (j, tag) = read_tag x (i + 1) False [];
                empty_elmt = ''<'' @ tag @ '' />'';
                closed_elmt = ''<'' @ tag @ ''>None</'' @ tag @ ''>'';
                x' = (if startswith x empty_elmt then replace x empty_elmt closed_elmt else x);
                (k, val) = scan_value x' tag (j + 1) []
            in (strip tag, butlast val, drop (k + 1) x')))"

subsection \<open>\<^verbatim>\<open>_xml2dict\<close>\<close>

text \<open>
  \<^verbatim>\<open>''.join(re.findall(".*?(<.*)", xml_string, re.M))\<close>: the pattern matches
  inside one line (\<open>.\<close> stops at a line feed), from the first \<open><\<close> of the line to
  its end, so what is joined is that piece of every line that has a \<open><\<close>.
\<close>

definition join_from_first_lt :: "string \<Rightarrow> string" where
  "join_from_first_lt s =
     concat (map (dropWhile (\<lambda>c. c \<noteq> CHR ''<'')) (split_on CHR 0x0A s))"

text \<open>
  \<^verbatim>\<open>_dict[tag].append(v)\<close>. The key is there whenever the parser appends, it has
  stored \<^verbatim>\<open>_dict[tag] = []\<close> just before; a dictionary without the key is left as
  it is.
\<close>

definition dict_append :: "xml_dict \<Rightarrow> string \<Rightarrow> xml \<Rightarrow> xml_dict" where
  "dict_append d k v =
     (case fmlookup d k of None \<Rightarrow> d | Some vs \<Rightarrow> fmupd k (vs @ [v]) d)"

text \<open>
  The loop of \<^verbatim>\<open>_xml2dict\<close>, on the string that is left and the dictionary built
  so far; the call \<^verbatim>\<open>_xml2dict(value)\<close> is the loop on \<open>value\<close> from the
  empty dictionary. The depth of the recursion is not bounded here; the interpreter's
  recursion limit is not part of the model.
\<close>

function xml2dict_loop :: "string \<Rightarrow> xml_dict \<Rightarrow> xml_dict" where
  "xml2dict_loop xml_string dict =
     (if xml_string = [] then dict
      else
        (case get_tag_value xml_string 0 of
           (tag, value0, rest) \<Rightarrow>
             let val = strip value0;
                 is_xml = fst (get_tag_value val 0);
                 dict1 = (if fmlookup dict tag = None then fmupd tag [] dict else dict)
             in if is_xml = [] then
                  (if val = [] then xml2dict_loop rest dict1
                   else xml2dict_loop rest (dict_append dict1 tag (Str (strip val))))
                else
                  xml2dict_loop rest
                    (dict_append dict1 tag (Dict (xml2dict_loop val fmempty)))))"
  by pat_completeness auto

subsection \<open>Termination of the parser\<close>

text \<open>
  The self-closing rewrite of \<^verbatim>\<open>_get_tag_value\<close> can make the string longer, so
  the length alone does not decrease. What decreases is the pair of the number of space
  characters and the length, in the lexicographic order: the rewrite removes the space of
  every \<^verbatim>\<open><tag />\<close> it replaces, and every other step only cuts pieces off.
\<close>

definition count_spaces :: "string \<Rightarrow> nat" where
  "count_spaces s = length (filter (\<lambda>c. c = CHR '' '') s)"

definition parse_smaller :: "string \<Rightarrow> string \<Rightarrow> bool" where
  "parse_smaller t s =
     (count_spaces t < count_spaces s \<or> (count_spaces t = count_spaces s \<and> length t < length s))"

lemma count_spaces_append [simp]: "count_spaces (a @ b) = count_spaces a + count_spaces b"
  by (simp add: count_spaces_def)

lemma count_spaces_Nil [simp]: "count_spaces [] = 0"
  by (simp add: count_spaces_def)

lemma count_spaces_Cons: "count_spaces (c # cs) = (if c = CHR '' '' then 1 else 0) + count_spaces cs"
  by (simp add: count_spaces_def)

lemma count_spaces_rev [simp]: "count_spaces (rev s) = count_spaces s"
  by (simp add: count_spaces_def flip: rev_filter)

lemma count_spaces_drop: "count_spaces (drop n s) \<le> count_spaces s"
proof -
  have "count_spaces (take n s @ drop n s) = count_spaces s" by simp
  then show ?thesis unfolding count_spaces_append by linarith
qed

lemma count_spaces_take: "count_spaces (take n s) \<le> count_spaces s"
proof -
  have "count_spaces (take n s @ drop n s) = count_spaces s" by simp
  then show ?thesis unfolding count_spaces_append by linarith
qed

lemma count_spaces_dropWhile: "count_spaces (dropWhile P s) \<le> count_spaces s"
  by (metis count_spaces_drop dropWhile_eq_drop)

lemma count_spaces_strip: "count_spaces (strip s) \<le> count_spaces s"
  unfolding strip_def
  by (metis count_spaces_dropWhile count_spaces_rev le_trans)

lemma length_strip: "length (strip s) \<le> length s"
  unfolding strip_def
  by (metis length_dropWhile_le length_rev le_trans)

lemma count_spaces_butlast: "count_spaces (butlast s) \<le> count_spaces s"
  by (simp add: butlast_conv_take count_spaces_take)

lemma strip_Nil [simp]: "strip [] = []"
  by (simp add: strip_def)

lemma strip_idem: "strip (strip s) = strip s"
proof -
  define t where "t = dropWhile isspace (rev s)"
  define u where "u = dropWhile isspace (rev t)"
  have t: "t = [] \<or> \<not> isspace (hd t)"
    unfolding t_def by (metis hd_dropWhile)
  have u: "u = [] \<or> \<not> isspace (hd u)"
    unfolding u_def by (metis hd_dropWhile)
  have su: "strip s = u" by (simp add: strip_def t_def u_def)
  show ?thesis
  proof (cases "u = []")
    case True
    then have "strip u = u" by simp
    then show ?thesis unfolding su .
  next
    case False
    then have tne: "t \<noteq> []" by (auto simp: u_def)
    obtain n where n: "u = drop n (rev t)" unfolding u_def by (metis dropWhile_eq_drop)
    have "last u = last (rev t)" using False n by (metis last_drop drop_eq_Nil not_le)
    then have "last u = hd t" using tne by (simp add: last_rev)
    then have "\<not> isspace (hd (rev u))" using t tne False by (simp add: hd_rev)
    then have "dropWhile isspace (rev u) = rev u" using False
      by (cases "rev u") auto
    moreover have "dropWhile isspace u = u" using u False by (cases u) auto
    ultimately have "strip u = u" by (simp add: strip_def)
    then show ?thesis unfolding su .
  qed
qed

lemma skip_decl_step:
  "i < length x \<and> x ! i \<noteq> CHR ''<'' \<Longrightarrow> skip_decl x i = skip_decl x (i + 1)"
  by (subst skip_decl.simps, rule if_P)

lemma skip_decl_stop:
  "\<not> (i < length x \<and> x ! i \<noteq> CHR ''<'') \<Longrightarrow> skip_decl x i = i"
  by (subst skip_decl.simps, rule if_not_P)

lemma read_tag_step:
  "i < length x \<and> x ! i \<noteq> CHR ''>'' \<Longrightarrow>
   read_tag x i a t =
     read_tag x (i + 1) (if x ! i = CHR '' '' then True else a)
       (if \<not> (if x ! i = CHR '' '' then True else a) then t @ [x ! i] else t)"
  by (subst read_tag.simps) (simp only: if_True Let_def simp_thms)

lemma read_tag_stop:
  "\<not> (i < length x \<and> x ! i \<noteq> CHR ''>'') \<Longrightarrow> read_tag x i a t = (i, t)"
  by (subst read_tag.simps, rule if_not_P)

lemma scan_value_stop:
  "\<not> i < length x \<Longrightarrow> scan_value x tag i v = (i, v)"
  by (subst scan_value.simps, rule if_not_P)

lemma scan_value_break:
  "i < length x \<Longrightarrow> x ! i = CHR ''>'' \<Longrightarrow> endswith (v @ [x ! i]) (''</'' @ tag @ ''>'') \<Longrightarrow>
   scan_value x tag i v = (i, take (length (v @ [x ! i]) - (length tag + 2)) (v @ [x ! i]))"
  by (subst scan_value.simps) (simp add: Let_def)

lemma scan_value_step:
  "i < length x \<Longrightarrow> \<not> (x ! i = CHR ''>'' \<and> endswith (v @ [x ! i]) (''</'' @ tag @ ''>'')) \<Longrightarrow>
   scan_value x tag i v = scan_value x tag (i + 1) (v @ [x ! i])"
  by (subst scan_value.simps) (simp only: if_True if_False Let_def simp_thms)

lemma replace_Nil: "old \<noteq> [] \<Longrightarrow> replace [] old new = []"
  by (subst replace.simps) simp

lemma replace_hit:
  "old \<noteq> [] \<Longrightarrow> s \<noteq> [] \<Longrightarrow> startswith s old \<Longrightarrow>
   replace s old new = new @ replace (drop (length old) s) old new"
  by (subst replace.simps) simp

lemma replace_miss:
  "old \<noteq> [] \<Longrightarrow> s \<noteq> [] \<Longrightarrow> \<not> startswith s old \<Longrightarrow>
   replace s old new = hd s # replace (tl s) old new"
  by (subst replace.simps) simp

lemma read_tag_spaces:
  "read_tag x i a t = (j, t') \<Longrightarrow> count_spaces t' = count_spaces t"
proof (induction x i a t rule: read_tag.induct)
  case (1 x i in_attr tag)
  show ?case
  proof (cases "i < length x \<and> x ! i \<noteq> CHR ''>''")
    case True
    define a' where "a' = (if x ! i = CHR '' '' then True else in_attr)"
    define t2 where "t2 = (if \<not> a' then tag @ [x ! i] else tag)"
    have eq: "read_tag x (i + 1) a' t2 = (j, t')"
      using "1.prems" unfolding read_tag_step [OF True] a'_def t2_def .
    have "count_spaces t' = count_spaces t2"
      using "1.IH" [OF True a'_def t2_def eq] .
    moreover have "count_spaces t2 = count_spaces tag"
      by (auto simp: t2_def a'_def count_spaces_Cons)
    ultimately show ?thesis by simp
  next
    case False
    with "1.prems" show ?thesis by (simp add: read_tag_stop)
  qed
qed

lemma count_spaces_replace_le:
  "old \<noteq> [] \<Longrightarrow> count_spaces new \<le> count_spaces old \<Longrightarrow>
   count_spaces (replace s old new) \<le> count_spaces s"
proof (induction s old new rule: replace.induct)
  case (1 s old new)
  show ?case
  proof (cases "s = []")
    case True
    then show ?thesis using "1.prems" by (simp add: replace_Nil)
  next
    case sne: False
    show ?thesis
    proof (cases "startswith s old")
      case True
      then have s: "s = old @ drop (length old) s"
        by (metis append_take_drop_id startswith_def)
      have "count_spaces (replace (drop (length old) s) old new) \<le> count_spaces (drop (length old) s)"
        using "1.IH"(1) [OF "1.prems"(1) sne True "1.prems"] .
      moreover have "count_spaces s = count_spaces old + count_spaces (drop (length old) s)"
        by (subst s) simp
      moreover have "replace s old new = new @ replace (drop (length old) s) old new"
        using "1.prems"(1) sne True by (rule replace_hit)
      ultimately show ?thesis using "1.prems"(2) by simp
    next
      case False
      have "count_spaces (replace (tl s) old new) \<le> count_spaces (tl s)"
        using "1.IH"(2) [OF "1.prems"(1) sne False "1.prems"] .
      moreover have "replace s old new = hd s # replace (tl s) old new"
        using "1.prems"(1) sne False by (rule replace_miss)
      moreover have "count_spaces s = count_spaces [hd s] + count_spaces (tl s)"
        using sne by (metis append_Cons append_Nil count_spaces_append list.collapse)
      ultimately show ?thesis by (simp add: count_spaces_Cons)
    qed
  qed
qed

lemma count_spaces_replace_less:
  assumes "count_spaces new < count_spaces old" and "startswith s old"
  shows "count_spaces (replace s old new) < count_spaces s"
proof -
  have one: "old \<noteq> []" using assms(1) by auto
  have s: "s = old @ drop (length old) s"
    using assms(2) by (metis append_take_drop_id startswith_def)
  have sne: "s \<noteq> []" using s one by auto
  have "count_spaces (replace (drop (length old) s) old new) \<le> count_spaces (drop (length old) s)"
    using count_spaces_replace_le [OF one] assms(1) by simp
  moreover have "count_spaces s = count_spaces old + count_spaces (drop (length old) s)"
    by (subst s) simp
  moreover have "replace s old new = new @ replace (drop (length old) s) old new"
    using one sne assms(2) by (rule replace_hit)
  ultimately show ?thesis using assms(1) by simp
qed

lemma scan_value_prefix:
  "scan_value x tag i v = (k, v') \<Longrightarrow> \<exists>zs. v @ drop i x = v' @ zs"
proof (induction x tag i v rule: scan_value.induct)
  case (1 x tag i v)
  show ?case
  proof (cases "i < length x")
    case True
    define v2 where "v2 = v @ [x ! i]"
    have d: "v @ drop i x = v2 @ drop (i + 1) x"
      using True by (simp add: v2_def Cons_nth_drop_Suc)
    show ?thesis
    proof (cases "x ! i = CHR ''>'' \<and> endswith v2 (''</'' @ tag @ ''>'')")
      case brk: True
      have "scan_value x tag i v = (i, take (length v2 - (length tag + 2)) v2)"
        using scan_value_break [OF True] brk unfolding v2_def by blast
      with "1.prems" have "v' = take (length v2 - (length tag + 2)) v2" by simp
      then have "v2 = v' @ drop (length v2 - (length tag + 2)) v2" by simp
      then show ?thesis unfolding d by (metis append.assoc)
    next
      case False
      have "scan_value x tag i v = scan_value x tag (i + 1) v2"
        using scan_value_step [OF True] False unfolding v2_def by blast
      with "1.prems" have eq: "scan_value x tag (i + 1) v2 = (k, v')" by simp
      show ?thesis using "1.IH" [OF True v2_def False eq] unfolding d .
    qed
  next
    case False
    with "1.prems" show ?thesis by (simp add: scan_value_stop)
  qed
qed

lemma skip_decl_stops:
  "length x \<le> skip_decl x i \<or> x ! (skip_decl x i) = CHR ''<''"
proof (induction x i rule: skip_decl.induct)
  case (1 x i)
  show ?case
  proof (cases "i < length x \<and> x ! i \<noteq> CHR ''<''")
    case True
    then have "skip_decl x i = skip_decl x (i + 1)" by (rule skip_decl_step)
    then show ?thesis using "1.IH" [OF True] by simp
  next
    case False
    then have "skip_decl x i = i" by (rule skip_decl_stop)
    then show ?thesis using False by auto
  qed
qed


lemma get_tag_value_unfold:
  "get_tag_value s 0 =
     (let x = strip s;
          i = (if startswith x ''<?'' then skip_decl x 2 else 0)
      in if startswith (drop i x) ''</'' then
           (let (j, tag) = read_tag x (i + 2) False [] in (strip tag, [], drop (j + 1) x))
         else if \<not> startswith (drop i x) ''<'' then ([], drop i x, [])
         else
           (let (j, tag) = read_tag x (i + 1) False [];
                empty_elmt = ''<'' @ tag @ '' />'';
                closed_elmt = ''<'' @ tag @ ''>None</'' @ tag @ ''>'';
                x' = (if startswith x empty_elmt then replace x empty_elmt closed_elmt else x);
                (k, val) = scan_value x' tag (j + 1) []
            in (strip tag, butlast val, drop (k + 1) x')))"
  unfolding get_tag_value_def by (simp only: drop_0 add_0)

lemma get_tag_value_cases:
  obtains
    (closing) x j tag where
      "x = strip s" "x \<noteq> []"
      "get_tag_value s 0 = (strip tag, [], drop (j + 1) x)"
  | (leaf) x i where
      "x = strip s" "i = (if startswith x ''<?'' then skip_decl x 2 else 0)"
      "\<not> startswith (drop i x) ''<''"
      "get_tag_value s 0 = ([], drop i x, [])"
  | (element) x j tag x' k v where
      "x = strip s" "x \<noteq> []"
      "x' = x \<or> count_spaces x' < count_spaces x"
      "scan_value x' tag (j + 1) [] = (k, v)"
      "get_tag_value s 0 = (strip tag, butlast v, drop (k + 1) x')"
proof -
  define x where "x = strip s"
  define i where "i = (if startswith x ''<?'' then skip_decl x 2 else 0)"
  show thesis
  proof (cases "startswith (drop i x) ''</''")
    case True
    obtain j tag where rt: "read_tag x (i + 2) False [] = (j, tag)"
      by (cases "read_tag x (i + 2) False []")
    have "get_tag_value s 0 = (strip tag, [], drop (j + 1) x)"
      unfolding get_tag_value_unfold Let_def x_def [symmetric] i_def [symmetric]
      using True rt by simp
    moreover have "x \<noteq> []" using True by (auto simp: startswith_def)
    ultimately show thesis using closing x_def by blast
  next
    case nclose: False
    show thesis
    proof (cases "startswith (drop i x) ''<''")
      case False
      have "get_tag_value s 0 = ([], drop i x, [])"
        unfolding get_tag_value_unfold Let_def x_def [symmetric] i_def [symmetric]
        using nclose False by simp
      then show thesis using leaf x_def i_def False by blast
    next
      case True
      obtain j tag where rt: "read_tag x (i + 1) False [] = (j, tag)"
        by (cases "read_tag x (i + 1) False []")
      define empty_elmt where "empty_elmt = ''<'' @ tag @ '' />''"
      define closed_elmt where "closed_elmt = ''<'' @ tag @ ''>None</'' @ tag @ ''>''"
      define x' where
        "x' = (if startswith x empty_elmt then replace x empty_elmt closed_elmt else x)"
      obtain k v where sv: "scan_value x' tag (j + 1) [] = (k, v)"
        by (cases "scan_value x' tag (j + 1) []")
      have tag0: "count_spaces tag = 0"
        using read_tag_spaces [OF rt] by simp
      have "count_spaces closed_elmt < count_spaces empty_elmt"
        by (simp add: closed_elmt_def empty_elmt_def tag0 count_spaces_Cons)
      then have x': "x' = x \<or> count_spaces x' < count_spaces x"
        using count_spaces_replace_less [of closed_elmt empty_elmt x]
        by (auto simp: x'_def)
      have "get_tag_value s 0 = (strip tag, butlast v, drop (k + 1) x')"
        unfolding get_tag_value_unfold Let_def
        unfolding x_def [symmetric] i_def [symmetric]
        apply (simp only: nclose True rt prod.case if_False if_True simp_thms)
        unfolding empty_elmt_def [symmetric] closed_elmt_def [symmetric]
        unfolding x'_def [symmetric]
        apply (simp only: sv prod.case)
        done
      moreover have "x \<noteq> []" using True by (auto simp: startswith_def)
      ultimately show thesis using element x_def x' sv by blast
    qed
  qed
qed

lemma get_tag_value_Nil: "get_tag_value [] 0 = ([], [], [])"
  by (simp add: get_tag_value_def startswith_def)

lemma get_tag_value_rest_smaller:
  assumes "s \<noteq> []" and "get_tag_value s 0 = (tag, v, rest)"
  shows "parse_smaller rest s"
proof (cases s rule: get_tag_value_cases)
  case (closing x j t)
  then have rest: "rest = drop (j + 1) x" using assms(2) by simp
  have "length rest < length x" using closing(2) by (simp add: rest)
  moreover have "count_spaces rest \<le> count_spaces x" by (simp add: rest count_spaces_drop)
  ultimately show ?thesis
    using length_strip [of s] count_spaces_strip [of s] closing(1)
    by (auto simp: parse_smaller_def)
next
  case (leaf x i)
  then have "rest = []" using assms(2) by simp
  then show ?thesis using assms(1) by (auto simp: parse_smaller_def)
next
  case (element x j t x' k w)
  then have rest: "rest = drop (k + 1) x'" using assms(2) by simp
  have c: "count_spaces rest \<le> count_spaces x'" by (simp add: rest count_spaces_drop)
  from element(3) show ?thesis
  proof
    assume "x' = x"
    then have "length rest < length x" using element(2) by (simp add: rest)
    then show ?thesis
      using c \<open>x' = x\<close> length_strip [of s] count_spaces_strip [of s] element(1)
      by (auto simp: parse_smaller_def)
  next
    assume "count_spaces x' < count_spaces x"
    then show ?thesis
      using c count_spaces_strip [of s] element(1)
      by (auto simp: parse_smaller_def)
  qed
qed

lemma get_tag_value_value_smaller:
  assumes "s \<noteq> []" and "get_tag_value s 0 = (tag, v, rest)"
    and "fst (get_tag_value (strip v) 0) \<noteq> []"
  shows "parse_smaller (strip v) s"
proof (cases s rule: get_tag_value_cases)
  case (closing x j t)
  then have "v = []" using assms(2) by simp
  then show ?thesis using assms(3) by (simp add: get_tag_value_Nil)
next
  case (leaf x i)
  then have v: "v = drop i x" using assms(2) by simp
  have "fst (get_tag_value (strip v) 0) = []"
  proof (cases "startswith x ''<?''")
    case True
    then have i: "i = skip_decl x 2" using leaf(2) by simp
    have "drop i x = []"
    proof (rule ccontr)
      assume "drop i x \<noteq> []"
      then have lt: "i < length x" by simp
      then have "x ! i = CHR ''<''" using skip_decl_stops [of x 2] i by auto
      then have "startswith (drop i x) ''<''"
        using lt by (simp add: startswith_def flip: Cons_nth_drop_Suc)
      then show False using leaf(3) by simp
    qed
    then show ?thesis by (simp add: v get_tag_value_Nil)
  next
    case False
    then have i: "i = 0" using leaf(2) by simp
    have sx: "strip x = x" using leaf(1) by (simp add: strip_idem)
    have n1: "\<not> startswith x ''<''" using leaf(3) i by simp
    have n2: "\<not> startswith x ''</''"
      using n1 by (cases x) (simp_all add: startswith_def)
    show ?thesis
      unfolding get_tag_value_unfold Let_def v i drop_0 sx
      using False n1 n2 by simp
  qed
  then show ?thesis using assms(3) by simp
next
  case (element x j t x' k w)
  then have v: "v = butlast w" using assms(2) by simp
  obtain zs where "drop (j + 1) x' = w @ zs"
    using scan_value_prefix [OF element(4)] by auto
  then have w: "w = take (length w) (drop (j + 1) x')" by simp
  have "count_spaces w \<le> count_spaces (drop (j + 1) x')"
    by (subst w) (rule count_spaces_take)
  then have c: "count_spaces (strip v) \<le> count_spaces x'"
    using count_spaces_strip [of v] count_spaces_butlast [of w]
      count_spaces_drop [of "j + 1" x'] unfolding v by linarith
  have l: "length (strip v) \<le> length x' - (j + 1)"
  proof -
    have "length w \<le> length x' - (j + 1)" by (subst w) simp
    then show ?thesis using length_strip [of v] unfolding v by simp
  qed
  from element(3) show ?thesis
  proof
    assume "x' = x"
    then have "length (strip v) < length x" using element(2) l by (cases x) auto
    then show ?thesis
      using c \<open>x' = x\<close> length_strip [of s] count_spaces_strip [of s] element(1)
      by (auto simp: parse_smaller_def)
  next
    assume "count_spaces x' < count_spaces x"
    then show ?thesis
      using c count_spaces_strip [of s] element(1)
      by (auto simp: parse_smaller_def)
  qed
qed

lemma wf_parse_smaller: "wfP parse_smaller"
proof -
  have "wf (inv_image (less_than <*lex*> less_than) (\<lambda>s. (count_spaces s, length s)))"
    by (rule wf_inv_image) (rule wf_lex_prod; rule wf_less_than)
  moreover have "{(t, s). parse_smaller t s} =
      inv_image (less_than <*lex*> less_than) (\<lambda>s. (count_spaces s, length s))"
    by (auto simp: parse_smaller_def inv_image_def)
  ultimately show ?thesis by (simp add: wfp_def)
qed

lemma xml2dict_loop_total: "All xml2dict_loop_dom"
proof (relation "inv_image {(t, s). parse_smaller t s} fst")
  show "wf (inv_image {(t, s). parse_smaller t s} fst)"
    using wf_parse_smaller by (intro wf_inv_image) (simp add: wfp_def)
qed (auto simp: get_tag_value_rest_smaller get_tag_value_value_smaller
       intro: get_tag_value_rest_smaller [OF _ sym] get_tag_value_value_smaller [OF _ sym])

termination xml2dict_loop
  by (rule xml2dict_loop_total)

declare xml2dict_loop.simps [simp del]

text \<open>\<^verbatim>\<open>_xml2dict(xml_string, ignore_until_xml)\<close>.\<close>

definition xml2dict :: "string \<Rightarrow> bool \<Rightarrow> xml_dict" where
  "xml2dict xml_string ignore_until_xml =
     xml2dict_loop
       (if ignore_until_xml then join_from_first_lt xml_string else xml_string) fmempty"

section \<open>Properties of the parser\<close>

lemma get_tag_value_two_self_closing:
  "get_tag_value ''<a /><a />'' 0 = (''a'', ''ne'', ''<a>None</a>'')"
  by code_simp

lemma get_tag_value_nested:
  "get_tag_value ''<a><b>x</b></a>'' 0 = (''a'', ''<b>x</b>'', [])"
  by code_simp

lemma get_tag_value_inner:
  "get_tag_value ''<b>x</b>'' 0 = (''b'', ''x'', [])"
  by code_simp

text \<open>
  Claim C10, as amended. The recursive tree-building parse terminates on every input
  string: \<open>xml2dict_loop_dom (s, d)\<close> says that the recursion of \<^const>\<open>xml2dict_loop\<close>
  from the string \<open>s\<close> and the dictionary \<open>d\<close> is well founded. Each extraction step on
  a non-empty string returns a remainder, and a content the parser recurses into, that are
  smaller than the input in the well-founded order \<^const>\<open>parse_smaller\<close>: fewer space
  characters, or as many and strictly shorter.
\<close>

theorem xml2dict_terminates:
  "wfP parse_smaller \<and> xml2dict_loop_dom (s, d) \<and>
   (s \<noteq> [] \<longrightarrow>
      parse_smaller (snd (snd (get_tag_value s 0))) s \<and>
      (fst (get_tag_value (strip (fst (snd (get_tag_value s 0)))) 0) \<noteq> [] \<longrightarrow>
         parse_smaller (strip (fst (snd (get_tag_value s 0)))) s))"
proof -
  obtain tag v rest where g: "get_tag_value s 0 = (tag, v, rest)"
    by (cases "get_tag_value s 0") auto
  have "xml2dict_loop_dom (s, d)"
    using xml2dict_loop_total by blast
  then show ?thesis
    using wf_parse_smaller get_tag_value_rest_smaller [OF _ g]
      get_tag_value_value_smaller [OF _ g]
    by (simp add: g)
qed

theorem xml2dict_terminates_witness:
  "''<a><b>x</b></a>'' \<noteq> [] \<and>
   fst (get_tag_value (strip ''<b>x</b>'') 0) \<noteq> [] \<and>
   xml2dict_loop_dom (''<a><b>x</b></a>'', fmempty) \<and>
   parse_smaller [] ''<a><b>x</b></a>'' \<and>
   parse_smaller (strip ''<b>x</b>'') ''<a><b>x</b></a>''"
proof -
  have s: "strip ''<b>x</b>'' = ''<b>x</b>''"
    by code_simp
  show ?thesis
    using xml2dict_terminates [of "''<a><b>x</b></a>''" fmempty]
    by (simp add: get_tag_value_nested get_tag_value_inner s)
qed

text \<open>
  Claim C10 as stated fails: on \<^verbatim>\<open><a /><a />\<close> (10 characters) the extraction step
  rewrites both self-closing elements and returns the remainder \<^verbatim>\<open><a>None</a>\<close>
  (11 characters), which is neither shorter than the input nor empty.
\<close>

theorem remainder_not_shorter_counterexample:
  "\<not> (length (snd (snd (get_tag_value ''<a /><a />'' 0))) < length ''<a /><a />'' \<or>
      snd (snd (get_tag_value ''<a /><a />'' 0)) = [])"
  by (simp add: get_tag_value_two_self_closing)

text \<open>
  Claim C3. The source means to replace a self-closing \<^verbatim>\<open><tag/>\<close> by
  \<^verbatim>\<open><tag>None</tag>\<close>, but the pattern it looks for is \<^verbatim>\<open><tag />\<close> with a
  space, and after the rewrite it goes on at the old index. So \<^verbatim>\<open><a/>\<close> parses to
  the tag \<^verbatim>\<open>a/\<close> with an empty list of children, and \<^verbatim>\<open><a />\<close> to the tag
  \<^verbatim>\<open>a\<close> with the one child \<^verbatim>\<open>ne\<close>; neither has the child \<^verbatim>\<open>None\<close>.
\<close>

theorem self_closing_parse:
  "xml2dict ''<a/>'' False = fmupd ''a/'' [] fmempty \<and>
   xml2dict ''<a />'' False = fmupd ''a'' [Str ''ne''] fmempty"
  by code_simp

section \<open>The path query\<close>

text \<open>
  The exceptions the module can meet. \<open>OSError\<close> stands for every failure of a socket
  or of \<^verbatim>\<open>urlopen\<close> (refused connection, timeout, unreachable host),
  \<open>DiscoveryError\<close> for \<^verbatim>\<open>Exception('Getting response failed')\<close>.
\<close>

datatype py_error =
  TypeError | KeyError | IndexError | ValueError | UnicodeDecodeError | OSError | DiscoveryError

text \<open>
  \<^verbatim>\<open>tag in xml_dict\<close>: a key of a dictionary, a piece of a string.
\<close>

definition py_in :: "string \<Rightarrow> xml \<Rightarrow> bool" where
  "py_in tag node =
     (case node of Dict d \<Rightarrow> fmlookup d tag \<noteq> None | Str v \<Rightarrow> contains_str v tag)"

text \<open>
  The loop over the children of a tag,
  \<^verbatim>\<open>
  for s in xml_dict[tag]:
      if s[a] == [aval]:
          xml_dict = s
          break
  \<close>
  It returns the new \<^verbatim>\<open>xml_dict\<close>: the first child that matches, and the old
  \<^verbatim>\<open>xml_dict\<close> when the loop ends without a match. \<^verbatim>\<open>s[a]\<close> raises
  \<open>TypeError\<close> on a string and \<open>KeyError\<close> on a dictionary without the key.
\<close>

fun find_child :: "xml list \<Rightarrow> string \<Rightarrow> string \<Rightarrow> xml \<Rightarrow> py_error + xml option" where
  "find_child [] a aval xml_dict = Inr (Some xml_dict)"
| "find_child (s # ss) a aval xml_dict =
     (case s of
        Str v \<Rightarrow> Inl TypeError
      | Dict sd \<Rightarrow>
          (case fmlookup sd a of
             None \<Rightarrow> Inl KeyError
           | Some vs \<Rightarrow> if vs = [Str aval] then Inr (Some s) else find_child ss a aval xml_dict))"

text \<open>\<^verbatim>\<open>xml_dict[tag]\<close>.\<close>

definition subscript :: "xml \<Rightarrow> string \<Rightarrow> py_error + xml list" where
  "subscript node tag =
     (case node of
        Str v \<Rightarrow> Inl TypeError
      | Dict d \<Rightarrow> (case fmlookup d tag of None \<Rightarrow> Inl KeyError | Some cs \<Rightarrow> Inr cs))"

text \<open>
  One round of the loop of \<^verbatim>\<open>_xpath\<close> on the segment \<open>p\<close>: \<open>Inr None\<close> is
  \<^verbatim>\<open>return None\<close>, \<open>Inr (Some node)\<close> the value of \<^verbatim>\<open>xml_dict\<close> after the
  round, \<open>Inl\<close> an exception. \<^verbatim>\<open>a, aval = attr.split('=')\<close> raises
  \<open>ValueError\<close> unless the split has two parts, and \<^verbatim>\<open>xml_dict[tag][0]\<close> raises
  \<open>IndexError\<close> on an empty list.
\<close>

definition xpath_segment :: "xml \<Rightarrow> string \<Rightarrow> py_error + xml option" where
  "xpath_segment xml_dict p =
     (case split_on CHR ''@'' p of
        [] \<Rightarrow> Inl IndexError
      | tag # more \<Rightarrow>
          if \<not> py_in tag xml_dict then Inr None
          else
            let attr = (case more of [] \<Rightarrow> [] | a # _ \<Rightarrow> a) in
            if attr \<noteq> [] then
              (case split_on CHR ''='' attr of
                 [a, aval] \<Rightarrow>
                   (case subscript xml_dict tag of
                      Inl e \<Rightarrow> Inl e
                    | Inr cs \<Rightarrow> find_child cs a aval xml_dict)
               | _ \<Rightarrow> Inl ValueError)
            else
              (case subscript xml_dict tag of
                 Inl e \<Rightarrow> Inl e
               | Inr [] \<Rightarrow> Inl IndexError
               | Inr (c # _) \<Rightarrow> Inr (Some c)))"

text \<open>\<^verbatim>\<open>_xpath(xml_dict, path)\<close>: the loop over \<^verbatim>\<open>path.split('/')\<close>.\<close>

fun xpath_loop :: "xml \<Rightarrow> string list \<Rightarrow> py_error + xml option" where
  "xpath_loop xml_dict [] = Inr (Some xml_dict)"
| "xpath_loop xml_dict (p # ps) =
     (case xpath_segment xml_dict p of
        Inl e \<Rightarrow> Inl e
      | Inr None \<Rightarrow> Inr None
      | Inr (Some node) \<Rightarrow> xpath_loop node ps)"

definition xpath :: "xml \<Rightarrow> string \<Rightarrow> py_error + xml option" where
  "xpath xml_dict path = xpath_loop xml_dict (split_on CHR ''/'' path)"






text \<open>
  \<^verbatim>\<open>s.rstrip()\<close>: white space removed at the end. The module does not call it;
  it says what \<^const>\<open>strip\<close> leaves of the text behind an element.
\<close>

definition rstrip :: "string \<Rightarrow> string" where
  "rstrip s = rev (dropWhile isspace (rev s))"









lemma rstrip_Nil [simp]: "rstrip [] = []"
  by (simp add: rstrip_def)






text \<open>
  Claim C4. When the predicate of a segment matches no child, the loop over the children
  ends without a \<^verbatim>\<open>break\<close> and \<^verbatim>\<open>xml_dict\<close> keeps its value: the walk goes on
  from the same node, and a path that ends there returns that node, not \<open>None\<close>. A
  tag that is present with an empty list of children raises \<open>IndexError\<close>. The
  docstring of \<^verbatim>\<open>_xpath\<close> promises \<open>None\<close> when the path is not found.
\<close>

theorem xpath_predicate_without_match:
  "xpath (Dict (fmupd ''a'' [Dict (fmupd ''b'' [Str ''x''] fmempty)] fmempty)) ''a@b=y'' =
     Inr (Some (Dict (fmupd ''a'' [Dict (fmupd ''b'' [Str ''x''] fmempty)] fmempty))) \<and>
   xpath (Dict (fmupd ''a'' [] fmempty)) ''a'' = Inl IndexError"
  by code_simp

section \<open>Formatting\<close>

text \<open>\<^verbatim>\<open>str(n)\<close> of an integer: its decimal digits, with a minus sign below zero.\<close>

definition digit_char :: "nat \<Rightarrow> char" where
  "digit_char n = ''0123456789'' ! (n mod 10)"

function str_of_nat :: "nat \<Rightarrow> string" where
  "str_of_nat n =
     (if n < 10 then [digit_char n] else str_of_nat (n div 10) @ [digit_char (n mod 10)])"
  by pat_completeness auto
termination
  by (relation "measure (\<lambda>n. n)") auto

declare str_of_nat.simps [simp del]

definition str_of_int :: "int \<Rightarrow> string" where
  "str_of_int i = (if i < 0 then CHR ''-'' # str_of_nat (nat (- i)) else str_of_nat (nat i))"

text \<open>
  The values the control methods put into the field dictionary: integers and strings.
  \<open>py_str\<close> is what \<^verbatim>\<open>'{}'.format(value)\<close> prints.
\<close>

datatype pyval = PyInt int | PyStr string

fun py_str :: "pyval \<Rightarrow> string" where
  "py_str (PyInt i) = str_of_int i"
| "py_str (PyStr s) = s"

text \<open>\<^verbatim>\<open>sep.join(xs)\<close>.\<close>

fun join_str :: "string \<Rightarrow> string list \<Rightarrow> string" where
  "join_str sep [] = []"
| "join_str sep [x] = x"
| "join_str sep (x # y # ys) = x @ sep @ join_str sep (y # ys)"

text \<open>
  What the module takes from the interpreter: the value of \<^verbatim>\<open>__file__\<close>, and
  \<^verbatim>\<open>str\<close> of a dictionary (it prints the keys in the order of their insertion, which
  the tree does not record).
\<close>

record py_runtime =
  module_file :: string
  dict_str :: "xml_dict \<Rightarrow> string"

text \<open>\<^verbatim>\<open>'{}'.format(v)\<close> for a node or \<^verbatim>\<open>None\<close>, and for a port or \<^verbatim>\<open>None\<close>.\<close>

definition format_node :: "py_runtime \<Rightarrow> xml option \<Rightarrow> string" where
  "format_node rt v =
     (case v of None \<Rightarrow> ''None'' | Some (Str s) \<Rightarrow> s | Some (Dict d) \<Rightarrow> dict_str rt d)"

definition format_port :: "int option \<Rightarrow> string" where
  "format_port p = (case p of None \<Rightarrow> ''None'' | Some n \<Rightarrow> str_of_int n)"

text \<open>
  \<^verbatim>\<open>s.encode('utf-8')\<close> as a list of bytes: a code point below U+0080 is one byte,
  one from U+0080 to U+00FF two bytes.
\<close>

definition utf8_encode :: "string \<Rightarrow> nat list" where
  "utf8_encode s =
     concat (map (\<lambda>c. if (of_char c :: nat) < 128 then [of_char c]
                       else [192 + of_char c div 64, 128 + of_char c mod 64]) s)"

section \<open>The device\<close>

definition version :: string where
  "version = ''0.15.0''"

definition URN_AVTransport :: string where
  "URN_AVTransport = ''urn:schemas-upnp-org:service:AVTransport:1''"

definition URN_AVTransport_Fmt :: "int \<Rightarrow> string" where
  "URN_AVTransport_Fmt v = ''urn:schemas-upnp-org:service:AVTransport:'' @ str_of_int v"

definition URN_RenderingControl :: string where
  "URN_RenderingControl = ''urn:schemas-upnp-org:service:RenderingControl:1''"

definition URN_RenderingControl_Fmt :: "int \<Rightarrow> string" where
  "URN_RenderingControl_Fmt v = ''urn:schemas-upnp-org:service:RenderingControl:'' @ str_of_int v"

text \<open>
  The attributes of a \<^verbatim>\<open>DLNADevice\<close>. \<open>location\<close> is \<open>None\<close> while the
  attribute is not set.
\<close>

record DLNADevice =
  ip :: string
  ssdp_version :: int
  port :: "int option"
  name :: xml
  control_url :: "xml option"
  rendering_control_url :: "xml option"
  has_av_transport :: bool
  location :: "string option"

subsection \<open>Control packets\<close>

text \<open>\<^verbatim>\<open>DLNADevice._payload_from_template(action, data, urn)\<close>.\<close>

definition payload_from_template :: "string \<Rightarrow> (string \<times> pyval) list \<Rightarrow> string \<Rightarrow> string" where
  "payload_from_template action data urn =
     (let fields =
            concat (map (\<lambda>(tag, v). ''<'' @ tag @ ''>'' @ py_str v @ ''</'' @ tag @ ''>'') data);
          encoding_style = ''http://schemas.xmlsoap.org/soap/encoding/''
      in
        ''<?xml version=\"1.0\" encoding=\"utf-8\"?>\<newline>'' @
        ''         <s:Envelope xmlns:s=\"http://schemas.xmlsoap.org/soap/envelope/\" s:encodingStyle=\"'' @ encoding_style @ ''\">\<newline>'' @
        ''            <s:Body>\<newline>'' @
        ''               <u:'' @ action @ '' xmlns:u=\"'' @ urn @ ''\">\<newline>'' @
        ''                  '' @ fields @ ''\<newline>'' @
        ''               </u:'' @ action @ ''>\<newline>'' @
        ''            </s:Body>\<newline>'' @
        ''         </s:Envelope>'')"

text \<open>
  \<^verbatim>\<open>DLNADevice._create_packet(action, data)\<close>: the lines that are joined, and the
  packet.
\<close>

definition create_packet_lines ::
  "py_runtime \<Rightarrow> DLNADevice \<Rightarrow> string \<Rightarrow> (string \<times> pyval) list \<Rightarrow> string list" where
  "create_packet_lines rt self action data =
     (let (url, urn) =
            (if action \<in> set [''SetVolume'', ''SetMute'', ''GetVolume'']
             then (rendering_control_url self, URN_RenderingControl_Fmt (ssdp_version self))
             else (control_url self, URN_AVTransport_Fmt (ssdp_version self)));
          payload = payload_from_template action data urn
      in [''POST '' @ format_node rt url @ '' HTTP/1.1'',
          ''User-Agent: '' @ module_file rt @ ''/'' @ version,
          ''Accept: */*'',
          ''Content-Type: text/xml; charset=\"utf-8\"'',
          ''HOST: '' @ ip self @ '':'' @ format_port (port self),
          ''Content-Length: '' @ str_of_nat (length payload),
          ''SOAPACTION: \"'' @ urn @ ''#'' @ action @ ''\"'',
          ''Connection: close'',
          [],
          payload])"

definition create_packet ::
  "py_runtime \<Rightarrow> DLNADevice \<Rightarrow> string \<Rightarrow> (string \<times> pyval) list \<Rightarrow> string" where
  "create_packet rt self action data =
     join_str [CHR 0x0D, CHR 0x0A] (create_packet_lines rt self action data)"

text \<open>The field dictionaries of \<^verbatim>\<open>set_volume\<close> and \<^verbatim>\<open>play_media\<close>.\<close>

definition set_volume_data :: "pyval \<Rightarrow> pyval \<Rightarrow> (string \<times> pyval) list" where
  "set_volume_data volume instance_id =
     [(''InstanceID'', instance_id), (''DesiredVolume'', volume), (''Channel'', PyStr ''Master'')]"

definition play_media_data :: "pyval \<Rightarrow> pyval \<Rightarrow> (string \<times> pyval) list" where
  "play_media_data url instance_id =
     [(''InstanceID'', instance_id), (''CurrentURI'', url), (''CurrentURIMetaData'', PyStr [])]"

text \<open>A device and a runtime to evaluate the definitions on.\<close>

definition sample_device :: DLNADevice where
  "sample_device =
     \<lparr>ip = ''192.168.1.50'', ssdp_version = 1, port = Some 80, name = Str ''LivingRoomTV'',
      control_url = Some (Str ''/ctrl''), rendering_control_url = Some (Str ''/rc''),
      has_av_transport = True, location = Some ''http://192.168.1.50:80/desc.xml''\<rparr>"

definition sample_runtime :: py_runtime where
  "sample_runtime = \<lparr>module_file = ''dlnap/__init__.py'', dict_str = (\<lambda>d. [])\<rparr>"

subsection \<open>Properties of the control packets\<close>

lemma startswith_Nil [simp]: "startswith s [] = True"
  by (simp add: startswith_def)

lemma startswith_Cons_Cons [simp]: "startswith (c # cs) (d # ds) = (c = d \<and> startswith cs ds)"
  by (auto simp: startswith_def)

lemma startswith_Nil_Cons [simp]: "startswith [] (d # ds) = False"
  by (simp add: startswith_def)

lemma contains_str_append_skip: "contains_str b t \<Longrightarrow> contains_str (a @ b) t = True"
  by (induction a) auto

lemma str_of_int_35: "str_of_int 35 = ''35''"
  by code_simp

lemma str_of_nat_491: "str_of_nat 491 = ''491''"
  by code_simp

text \<open>
  Claim C7. For every device, the packet of the volume-set action with the value 35 has a
  body that contains \<^verbatim>\<open><DesiredVolume>35</DesiredVolume>\<close>, its request line names
  the RenderingControl endpoint, and its SOAPACTION header names the RenderingControl URN
  and not the AVTransport URN. The rule behind it: the actions SetVolume, SetMute and
  GetVolume take the RenderingControl endpoint and URN, every other action the
  AVTransport ones.
\<close>

theorem set_volume_packet:
  "(let lines = create_packet_lines rt self ''SetVolume'' (set_volume_data (PyInt 35) instance_id)
    in lines ! 0 = ''POST '' @ format_node rt (rendering_control_url self) @ '' HTTP/1.1'' \<and>
       lines ! 6 =
         ''SOAPACTION: \"'' @ URN_RenderingControl_Fmt (ssdp_version self) @ ''#SetVolume\"'' \<and>
       lines ! 6 \<noteq>
         ''SOAPACTION: \"'' @ URN_AVTransport_Fmt (ssdp_version self) @ ''#SetVolume\"'' \<and>
       contains_str (lines ! 9) ''<DesiredVolume>35</DesiredVolume>'' \<and>
       create_packet rt self ''SetVolume'' (set_volume_data (PyInt 35) instance_id) =
         join_str [CHR 0x0D, CHR 0x0A] lines) \<and>
   (action \<in> set [''SetVolume'', ''SetMute'', ''GetVolume''] \<longrightarrow>
      create_packet_lines rt self action data ! 0 =
        ''POST '' @ format_node rt (rendering_control_url self) @ '' HTTP/1.1'' \<and>
      create_packet_lines rt self action data ! 6 =
        ''SOAPACTION: \"'' @ URN_RenderingControl_Fmt (ssdp_version self) @ ''#'' @ action @ ''\"'') \<and>
   (action \<notin> set [''SetVolume'', ''SetMute'', ''GetVolume''] \<longrightarrow>
      create_packet_lines rt self action data ! 0 =
        ''POST '' @ format_node rt (control_url self) @ '' HTTP/1.1'' \<and>
      create_packet_lines rt self action data ! 6 =
        ''SOAPACTION: \"'' @ URN_AVTransport_Fmt (ssdp_version self) @ ''#'' @ action @ ''\"'')"
proof -
  have c: "contains_str
      (payload_from_template ''SetVolume'' (set_volume_data (PyInt 35) instance_id)
         (URN_RenderingControl_Fmt (ssdp_version self)))
      ''<DesiredVolume>35</DesiredVolume>''"
    by (simp add: payload_from_template_def set_volume_data_def str_of_int_35
          contains_str_append_skip)
  have l: "create_packet_lines rt self ''SetVolume'' (set_volume_data (PyInt 35) instance_id) ! 9 =
      payload_from_template ''SetVolume'' (set_volume_data (PyInt 35) instance_id)
         (URN_RenderingControl_Fmt (ssdp_version self))"
    by (simp add: create_packet_lines_def Let_def)
  have u: "URN_RenderingControl_Fmt v \<noteq> URN_AVTransport_Fmt v" for v
    by (simp add: URN_RenderingControl_Fmt_def URN_AVTransport_Fmt_def)
  have first: "create_packet_lines rt self ''SetVolume'' (set_volume_data (PyInt 35) instance_id) ! 0 =
      ''POST '' @ format_node rt (rendering_control_url self) @ '' HTTP/1.1'' \<and>
    create_packet_lines rt self ''SetVolume'' (set_volume_data (PyInt 35) instance_id) ! 6 =
         ''SOAPACTION: \"'' @ URN_RenderingControl_Fmt (ssdp_version self) @ ''#SetVolume\"''"
    by (simp add: create_packet_lines_def Let_def)
  have rule: "(action \<in> set [''SetVolume'', ''SetMute'', ''GetVolume''] \<longrightarrow>
      create_packet_lines rt self action data ! 0 =
        ''POST '' @ format_node rt (rendering_control_url self) @ '' HTTP/1.1'' \<and>
      create_packet_lines rt self action data ! 6 =
        ''SOAPACTION: \"'' @ URN_RenderingControl_Fmt (ssdp_version self) @ ''#'' @ action @ ''\"'') \<and>
   (action \<notin> set [''SetVolume'', ''SetMute'', ''GetVolume''] \<longrightarrow>
      create_packet_lines rt self action data ! 0 =
        ''POST '' @ format_node rt (control_url self) @ '' HTTP/1.1'' \<and>
      create_packet_lines rt self action data ! 6 =
        ''SOAPACTION: \"'' @ URN_AVTransport_Fmt (ssdp_version self) @ ''#'' @ action @ ''\"'')"
    by (simp add: create_packet_lines_def Let_def)
  show ?thesis
    unfolding Let_def using c l u first rule by (simp add: create_packet_def)
qed

lemma str_of_int_1: "str_of_int 1 = ''1''"
  by code_simp

theorem set_volume_packet_witness:
  "''SetMute'' \<in> set [''SetVolume'', ''SetMute'', ''GetVolume''] \<and>
   ''Play'' \<notin> set [''SetVolume'', ''SetMute'', ''GetVolume''] \<and>
   create_packet_lines sample_runtime sample_device ''SetMute'' [] ! 0 = ''POST /rc HTTP/1.1'' \<and>
   create_packet_lines sample_runtime sample_device ''SetMute'' [] ! 6 =
     ''SOAPACTION: \"urn:schemas-upnp-org:service:RenderingControl:1#SetMute\"'' \<and>
   create_packet_lines sample_runtime sample_device ''Play'' [] ! 0 = ''POST /ctrl HTTP/1.1'' \<and>
   create_packet_lines sample_runtime sample_device ''Play'' [] ! 6 =
     ''SOAPACTION: \"urn:schemas-upnp-org:service:AVTransport:1#Play\"''"
  using set_volume_packet [of sample_runtime sample_device "PyInt 0" "''SetMute''" "[]"]
    set_volume_packet [of sample_runtime sample_device "PyInt 0" "''Play''" "[]"]
  by (simp add: sample_device_def sample_runtime_def format_node_def
        URN_RenderingControl_Fmt_def URN_AVTransport_Fmt_def str_of_int_1)

text \<open>
  Claim C9. \<^verbatim>\<open>_create_packet\<close> writes \<^verbatim>\<open>len(payload)\<close>, the number of
  characters, into the Content-Length header, and \<^verbatim>\<open>_send_tcp\<close> sends the packet
  encoded in UTF-8. With a media URL that holds the code point U+00E9 (an accented
  letter) the header says 491 and the body that is sent has 492 bytes.
\<close>

theorem content_length_counts_characters:
  "(let data = play_media_data (PyStr (''http://h/'' @ [CHR 0xE9] @ ''.mp3'')) (PyInt 0);
        payload = payload_from_template ''SetAVTransportURI'' data (URN_AVTransport_Fmt 1);
        lines = create_packet_lines rt (self\<lparr>ssdp_version := 1\<rparr>) ''SetAVTransportURI'' data
    in lines ! 5 = ''Content-Length: 491'' \<and> lines ! 9 = payload \<and>
       length payload = 491 \<and> length (utf8_encode payload) = 492)"
proof -
  define D where
    "D = play_media_data (PyStr (''http://h/'' @ [CHR 0xE9] @ ''.mp3'')) (PyInt 0)"
  define payload where
    "payload = payload_from_template ''SetAVTransportURI'' D (URN_AVTransport_Fmt 1)"
  have n: "length payload = 491"
    unfolding payload_def D_def by code_simp
  have b: "length (utf8_encode payload) = 492"
    unfolding payload_def D_def by code_simp
  show ?thesis
    unfolding Let_def D_def [symmetric] payload_def [symmetric]
    using n b
    by (simp add: create_packet_lines_def Let_def str_of_nat_491 payload_def [symmetric])
qed

subsection \<open>Construction of a device\<close>

text \<open>
  \<^verbatim>\<open>_get_location_url(raw)\<close>: the first match of
  \<^verbatim>\<open>\n(?i)location:\s*(.*)\r\s*\<close>, or the empty string. The flag makes the whole
  pattern ignore the letter case (Python 3.6 to 3.8, the versions the package names).
  After a line feed and \<^verbatim>\<open>location:\<close>, \<^verbatim>\<open>\s*\<close> takes as much white space
  as it can and gives it back one character at a time, until the rest of the line it
  stands on holds a carriage return; the group is that rest up to its last carriage
  return.
\<close>

definition matches_location_header :: "string \<Rightarrow> bool" where
  "matches_location_header cs =
     (9 \<le> length cs \<and>
      list_all2 (\<lambda>c (l, u). c = l \<or> c = u) (take 9 cs) (zip ''location:'' ''LOCATION:''))"

definition last_cr_group :: "string \<Rightarrow> string option" where
  "last_cr_group t =
     (let seg = takeWhile (\<lambda>c. c \<noteq> CHR 0x0A) t
      in if CHR 0x0D \<in> set seg
         then Some (rev (tl (dropWhile (\<lambda>c. c \<noteq> CHR 0x0D) (rev seg))))
         else None)"

fun location_after_spaces :: "string \<Rightarrow> nat \<Rightarrow> string option" where
  "location_after_spaces s 0 = last_cr_group s"
| "location_after_spaces s (Suc k) =
     (case last_cr_group (drop (Suc k) s) of
        Some g \<Rightarrow> Some g
      | None \<Rightarrow> location_after_spaces s k)"

fun find_location :: "string \<Rightarrow> string option" where
  "find_location [] = None"
| "find_location (c # cs) =
     (if c = CHR 0x0A \<and> matches_location_header cs then
        (case location_after_spaces (drop 9 cs) (length (takeWhile isspace (drop 9 cs))) of
           Some g \<Rightarrow> Some g
         | None \<Rightarrow> find_location cs)
      else find_location cs)"

definition get_location_url :: "string \<Rightarrow> string" where
  "get_location_url raw = (case find_location raw of Some g \<Rightarrow> g | None \<Rightarrow> [])"

text \<open>
  \<^verbatim>\<open>_get_port(location)\<close>: the first match of \<^verbatim>\<open>http://.*?:(\d+).*\<close> gives the
  digits after the first colon of the line that a digit follows; without a match the
  port is 80.
\<close>

definition isdigit :: "char \<Rightarrow> bool" where
  "isdigit c = (c \<in> set ''0123456789'')"

fun port_digits :: "string \<Rightarrow> string option" where
  "port_digits [] = None"
| "port_digits (c # cs) =
     (if c = CHR '':'' \<and> takeWhile isdigit cs \<noteq> [] then Some (takeWhile isdigit cs)
      else if c = CHR 0x0A then None
      else port_digits cs)"

fun find_port :: "string \<Rightarrow> string option" where
  "find_port [] = None"
| "find_port (c # cs) =
     (if startswith (c # cs) ''http://'' then
        (case port_digits (drop 7 (c # cs)) of
           Some ds \<Rightarrow> Some ds
         | None \<Rightarrow> find_port cs)
      else find_port cs)"

definition int_of_digits :: "string \<Rightarrow> int" where
  "int_of_digits ds = foldl (\<lambda>a c. 10 * a + int (of_char c - 48)) 0 ds"

definition get_port :: "string \<Rightarrow> int" where
  "get_port loc =
     (case find_port loc of Some ds \<Rightarrow> int_of_digits ds | None \<Rightarrow> 80)"

text \<open>\<^verbatim>\<open>_get_control_url(xml, urn)\<close> and \<^verbatim>\<open>DLNADevice._get_friendly_name(xml)\<close>.\<close>

definition get_control_url :: "xml \<Rightarrow> string \<Rightarrow> py_error + xml option" where
  "get_control_url xml urn =
     xpath xml (''root/device/serviceList/service@serviceType='' @ urn @ ''/controlURL'')"

definition get_friendly_name :: "xml \<Rightarrow> py_error + xml" where
  "get_friendly_name xml =
     (case xpath xml ''root/device/friendlyName'' of
        Inl e \<Rightarrow> Inl e
      | Inr None \<Rightarrow> Inr (Str ''Unknown'')
      | Inr (Some n) \<Rightarrow> Inr n)"

text \<open>
  What the constructor meets outside the module: the result of \<^verbatim>\<open>raw.decode()\<close>,
  and for a location the result of \<^verbatim>\<open>urlopen(location).read().decode()\<close>.
\<close>

record init_env =
  raw_decode :: "py_error + string"
  urlopen_read :: "string \<Rightarrow> py_error + string"

text \<open>The statements of the \<^verbatim>\<open>try\<close> block that can raise.\<close>

datatype init_step = Decode | Fetch | FriendlyName | ControlURL | RenderingControlURL

text \<open>
  The \<^verbatim>\<open>try\<close> block of \<^verbatim>\<open>DLNADevice.__init__(raw, ip)\<close>, after the defaults are
  set: the object as the block leaves it, and the statement that raised with its
  exception, if one did.
\<close>

definition init_try :: "init_env \<Rightarrow> string \<Rightarrow> (init_step \<times> py_error) option \<times> DLNADevice" where
  "init_try env addr =
     (let self = \<lparr>ip = addr, ssdp_version = 1, port = None, name = Str ''Unknown'',
                   control_url = None, rendering_control_url = None,
                   has_av_transport = False, location = None\<rparr>
      in case raw_decode env of
           Inl e \<Rightarrow> (Some (Decode, e), self)
         | Inr raw \<Rightarrow>
             let self = self\<lparr>location := Some (get_location_url raw)\<rparr>;
                 self = self\<lparr>port := Some (get_port (get_location_url raw))\<rparr>
             in case urlopen_read env (get_location_url raw) of
                  Inl e \<Rightarrow> (Some (Fetch, e), self)
                | Inr raw_desc_xml \<Rightarrow>
                    let desc_xml = Dict (xml2dict raw_desc_xml False)
                    in case get_friendly_name desc_xml of
                         Inl e \<Rightarrow> (Some (FriendlyName, e), self)
                       | Inr n \<Rightarrow>
                           let self = self\<lparr>name := n\<rparr>
                           in case get_control_url desc_xml URN_AVTransport of
                                Inl e \<Rightarrow> (Some (ControlURL, e), self)
                              | Inr cu \<Rightarrow>
                                  let self = self\<lparr>control_url := cu\<rparr>
                                  in case get_control_url desc_xml URN_RenderingControl of
                                       Inl e \<Rightarrow> (Some (RenderingControlURL, e), self)
                                     | Inr ru \<Rightarrow>
                                         let self = self\<lparr>rendering_control_url := ru\<rparr>
                                         in (None,
                                             self\<lparr>has_av_transport :=
                                                     (control_url self \<noteq> None)\<rparr>))"

text \<open>
  \<^verbatim>\<open>DLNADevice(raw, ip)\<close>: the \<^verbatim>\<open>except\<close> clause only writes a log record,
  the object is returned as the \<^verbatim>\<open>try\<close> block left it.
\<close>

definition DLNADevice_init :: "init_env \<Rightarrow> string \<Rightarrow> DLNADevice" where
  "DLNADevice_init env addr = snd (init_try env addr)"

text \<open>
  A discovery response, a description with an AVTransport service, and a description
  whose service list is empty.
\<close>

definition sample_response :: string where
  "sample_response =
     ''HTTP/1.1 200 OK'' @ [CHR 0x0D, CHR 0x0A] @
     ''LOCATION: http://192.168.1.50:80/desc.xml'' @ [CHR 0x0D, CHR 0x0A] @
     [CHR 0x0D, CHR 0x0A]"

definition sample_description :: string where
  "sample_description =
     ''<root><device><friendlyName>LivingRoomTV</friendlyName><serviceList><service>'' @
     ''<serviceType>urn:schemas-upnp-org:service:AVTransport:1</serviceType>'' @
     ''<controlURL>/ctrl</controlURL></service></serviceList></device></root>''"

definition empty_service_list :: string where
  "empty_service_list =
     ''<root><device><friendlyName>TV</friendlyName><serviceList></serviceList></device></root>''"

subsection \<open>Properties of the construction\<close>

lemma init_try_empty_service_list:
  "init_try \<lparr>raw_decode = Inr sample_response,
              urlopen_read = (\<lambda>l. Inr empty_service_list)\<rparr> ''192.168.1.50'' =
     (Some (ControlURL, IndexError),
      \<lparr>ip = ''192.168.1.50'', ssdp_version = 1, port = Some 80, name = Str ''TV'',
       control_url = None, rendering_control_url = None, has_av_transport = False,
       location = Some ''http://192.168.1.50:80/desc.xml''\<rparr>)"
  by code_simp

lemma init_try_decode_error:
  "init_try \<lparr>raw_decode = Inl UnicodeDecodeError,
              urlopen_read = (\<lambda>l. Inr empty_service_list)\<rparr> ''192.168.1.50'' =
     (Some (Decode, UnicodeDecodeError),
      \<lparr>ip = ''192.168.1.50'', ssdp_version = 1, port = None, name = Str ''Unknown'',
       control_url = None, rendering_control_url = None, has_av_transport = False,
       location = None\<rparr>)"
  by code_simp

text \<open>
  Two more descriptions: one without a device, where the extraction of the friendly name
  raises, and one whose second service has no type, where the AVTransport URL is found
  and the extraction of the RenderingControl URL raises.
\<close>

definition empty_root :: string where
  "empty_root = ''<root></root>''"

definition untyped_service :: string where
  "untyped_service =
     ''<root><device><friendlyName>TV</friendlyName><serviceList><service>'' @
     ''<serviceType>urn:schemas-upnp-org:service:AVTransport:1</serviceType>'' @
     ''<controlURL>/ctrl</controlURL></service><service><controlURL>/x</controlURL>'' @
     ''</service></serviceList></device></root>''"

lemma init_try_fetch_error:
  "init_try \<lparr>raw_decode = Inr sample_response,
              urlopen_read = (\<lambda>l. Inl OSError)\<rparr> ''192.168.1.50'' =
     (Some (Fetch, OSError),
      \<lparr>ip = ''192.168.1.50'', ssdp_version = 1, port = Some 80, name = Str ''Unknown'',
       control_url = None, rendering_control_url = None, has_av_transport = False,
       location = Some ''http://192.168.1.50:80/desc.xml''\<rparr>)"
  by code_simp

lemma init_try_empty_root:
  "init_try \<lparr>raw_decode = Inr sample_response,
              urlopen_read = (\<lambda>l. Inr empty_root)\<rparr> ''192.168.1.50'' =
     (Some (FriendlyName, IndexError),
      \<lparr>ip = ''192.168.1.50'', ssdp_version = 1, port = Some 80, name = Str ''Unknown'',
       control_url = None, rendering_control_url = None, has_av_transport = False,
       location = Some ''http://192.168.1.50:80/desc.xml''\<rparr>)"
  by code_simp

lemma init_try_untyped_service:
  "init_try \<lparr>raw_decode = Inr sample_response,
              urlopen_read = (\<lambda>l. Inr untyped_service)\<rparr> ''192.168.1.50'' =
     (Some (RenderingControlURL, KeyError),
      \<lparr>ip = ''192.168.1.50'', ssdp_version = 1, port = Some 80, name = Str ''TV'',
       control_url = Some (Str ''/ctrl''), rendering_control_url = None,
       has_av_transport = False,
       location = Some ''http://192.168.1.50:80/desc.xml''\<rparr>)"
  by code_simp

text \<open>
  Claim C6, as amended. When a statement of the constructor raises, the device is still
  made: it has the address it was given, \<^verbatim>\<open>has_av_transport\<close> is false and
  \<^verbatim>\<open>rendering_control_url\<close> is none. When the statement is the decoding, the fetch
  of the description or the extraction of the friendly name, the name is
  \<^verbatim>\<open>Unknown\<close> and \<^verbatim>\<open>control_url\<close> is none. When it is the extraction of
  the AVTransport control URL, \<^verbatim>\<open>control_url\<close> is none and the name is the one that
  was extracted; when it is the extraction of the RenderingControl URL, the name and the
  AVTransport URL are the ones that were extracted. For each statement the theorem gives
  the whole object: the fields assigned before the failure have the values extracted from
  the response and the description, the others their defaults.
\<close>

theorem init_failure_keeps_device:
  "fst (init_try env addr) = Some (step, e) \<longrightarrow>
     ip (DLNADevice_init env addr) = addr \<and>
     ssdp_version (DLNADevice_init env addr) = 1 \<and>
     has_av_transport (DLNADevice_init env addr) = False \<and>
     rendering_control_url (DLNADevice_init env addr) = None \<and>
     (step = Decode \<or> step = Fetch \<or> step = FriendlyName \<longrightarrow>
        name (DLNADevice_init env addr) = Str ''Unknown'' \<and>
        control_url (DLNADevice_init env addr) = None) \<and>
     (step = ControlURL \<longrightarrow> control_url (DLNADevice_init env addr) = None) \<and>
     (step = Decode \<longrightarrow>
        raw_decode env = Inl e \<and>
        DLNADevice_init env addr =
          \<lparr>ip = addr, ssdp_version = 1, port = None, name = Str ''Unknown'',
           control_url = None, rendering_control_url = None, has_av_transport = False,
           location = None\<rparr>) \<and>
     (step = Fetch \<longrightarrow>
        (\<exists>raw. raw_decode env = Inr raw \<and>
           urlopen_read env (get_location_url raw) = Inl e \<and>
           DLNADevice_init env addr =
             \<lparr>ip = addr, ssdp_version = 1, port = Some (get_port (get_location_url raw)),
              name = Str ''Unknown'', control_url = None, rendering_control_url = None,
              has_av_transport = False, location = Some (get_location_url raw)\<rparr>)) \<and>
     (step = FriendlyName \<longrightarrow>
        (\<exists>raw doc. raw_decode env = Inr raw \<and>
           urlopen_read env (get_location_url raw) = Inr doc \<and>
           get_friendly_name (Dict (xml2dict doc False)) = Inl e \<and>
           DLNADevice_init env addr =
             \<lparr>ip = addr, ssdp_version = 1, port = Some (get_port (get_location_url raw)),
              name = Str ''Unknown'', control_url = None, rendering_control_url = None,
              has_av_transport = False, location = Some (get_location_url raw)\<rparr>)) \<and>
     (step = ControlURL \<longrightarrow>
        (\<exists>raw doc n. raw_decode env = Inr raw \<and>
           urlopen_read env (get_location_url raw) = Inr doc \<and>
           get_friendly_name (Dict (xml2dict doc False)) = Inr n \<and>
           get_control_url (Dict (xml2dict doc False)) URN_AVTransport = Inl e \<and>
           DLNADevice_init env addr =
             \<lparr>ip = addr, ssdp_version = 1, port = Some (get_port (get_location_url raw)),
              name = n, control_url = None, rendering_control_url = None,
              has_av_transport = False, location = Some (get_location_url raw)\<rparr>)) \<and>
     (step = RenderingControlURL \<longrightarrow>
        (\<exists>raw doc n cu. raw_decode env = Inr raw \<and>
           urlopen_read env (get_location_url raw) = Inr doc \<and>
           get_friendly_name (Dict (xml2dict doc False)) = Inr n \<and>
           get_control_url (Dict (xml2dict doc False)) URN_AVTransport = Inr cu \<and>
           get_control_url (Dict (xml2dict doc False)) URN_RenderingControl = Inl e \<and>
           DLNADevice_init env addr =
             \<lparr>ip = addr, ssdp_version = 1, port = Some (get_port (get_location_url raw)),
              name = n, control_url = cu, rendering_control_url = None,
              has_av_transport = False, location = Some (get_location_url raw)\<rparr>))"
  by (auto simp: init_try_def DLNADevice_init_def Let_def split: sum.splits)

theorem init_failure_keeps_device_witness:
  "DLNADevice_init \<lparr>raw_decode = Inl UnicodeDecodeError,
                    urlopen_read = (\<lambda>l. Inr empty_service_list)\<rparr> ''192.168.1.50'' =
     \<lparr>ip = ''192.168.1.50'', ssdp_version = 1, port = None, name = Str ''Unknown'',
      control_url = None, rendering_control_url = None, has_av_transport = False,
      location = None\<rparr> \<and>
   name (DLNADevice_init \<lparr>raw_decode = Inr sample_response,
                    urlopen_read = (\<lambda>l. Inl OSError)\<rparr> ''192.168.1.50'') =
     Str ''Unknown'' \<and>
   name (DLNADevice_init \<lparr>raw_decode = Inr sample_response,
                    urlopen_read = (\<lambda>l. Inr empty_root)\<rparr> ''192.168.1.50'') =
     Str ''Unknown'' \<and>
   control_url (DLNADevice_init \<lparr>raw_decode = Inr sample_response,
                    urlopen_read = (\<lambda>l. Inr empty_service_list)\<rparr> ''192.168.1.50'') =
     None \<and>
   has_av_transport (DLNADevice_init \<lparr>raw_decode = Inr sample_response,
                    urlopen_read = (\<lambda>l. Inr untyped_service)\<rparr> ''192.168.1.50'') =
     False \<and>
   rendering_control_url (DLNADevice_init \<lparr>raw_decode = Inr sample_response,
                    urlopen_read = (\<lambda>l. Inr untyped_service)\<rparr> ''192.168.1.50'') =
     None"
  using
    init_failure_keeps_device
      [of "\<lparr>raw_decode = Inl UnicodeDecodeError,
             urlopen_read = (\<lambda>l. Inr empty_service_list)\<rparr>" "''192.168.1.50''"
          Decode UnicodeDecodeError]
    init_failure_keeps_device
      [of "\<lparr>raw_decode = Inr sample_response,
             urlopen_read = (\<lambda>l. Inl OSError)\<rparr>" "''192.168.1.50''"
          Fetch OSError]
    init_failure_keeps_device
      [of "\<lparr>raw_decode = Inr sample_response,
             urlopen_read = (\<lambda>l. Inr empty_root)\<rparr>" "''192.168.1.50''"
          FriendlyName IndexError]
    init_failure_keeps_device
      [of "\<lparr>raw_decode = Inr sample_response,
             urlopen_read = (\<lambda>l. Inr empty_service_list)\<rparr>" "''192.168.1.50''"
          ControlURL IndexError]
    init_failure_keeps_device
      [of "\<lparr>raw_decode = Inr sample_response,
             urlopen_read = (\<lambda>l. Inr untyped_service)\<rparr>" "''192.168.1.50''"
          RenderingControlURL KeyError]
  by (simp add: init_try_empty_service_list init_try_decode_error init_try_fetch_error
        init_try_empty_root init_try_untyped_service)

text \<open>
  Claim C6 as stated fails: with a description whose service list is empty the name is
  extracted, then the extraction of the control URL raises \<open>IndexError\<close>, and the
  device keeps the name \<^verbatim>\<open>TV\<close>, not \<^verbatim>\<open>Unknown\<close>.
\<close>

theorem init_failure_keeps_name_counterexample:
  "\<not> (fst (init_try \<lparr>raw_decode = Inr sample_response,
                       urlopen_read = (\<lambda>l. Inr empty_service_list)\<rparr> ''192.168.1.50'') \<noteq> None
        \<longrightarrow>
        name (DLNADevice_init \<lparr>raw_decode = Inr sample_response,
                       urlopen_read = (\<lambda>l. Inr empty_service_list)\<rparr> ''192.168.1.50'') =
          Str ''Unknown'')"
  by (simp add: DLNADevice_init_def init_try_empty_service_list)

section \<open>The control channel\<close>

text \<open>\<^verbatim>\<open>_unescape_xml(xml)\<close>.\<close>

definition unescape_xml :: "string \<Rightarrow> string" where
  "unescape_xml xml = replace (replace (replace xml ''&lt;'' ''<'') ''&gt;'' ''>'') ''&quot;'' ''\"''"

definition fault_path :: string where
  "fault_path = ''s:Envelope/s:Body/s:Fault/detail/UPnPError/errorDescription''"

text \<open>
  What the network does during one \<^verbatim>\<open>_send_tcp\<close>: whether the socket can be made,
  whether \<^verbatim>\<open>connect\<close> and \<^verbatim>\<open>sendall\<close> fail, and the result of
  \<^verbatim>\<open>sock.recv(2048)\<close> followed by \<^verbatim>\<open>data.decode('utf-8')\<close>.
\<close>

record tcp_env =
  socket_error :: "py_error option"
  connect_error :: "string \<times> int option \<Rightarrow> py_error option"
  sendall_error :: "nat list \<Rightarrow> py_error option"
  received :: "py_error + string"

text \<open>The levels of the module \<^verbatim>\<open>logging\<close>; a log record is a level and a message.\<close>

datatype log_level = DEBUG | INFO | WARNING | ERROR | CRITICAL

text \<open>
  The \<^verbatim>\<open>try\<close> block of \<^verbatim>\<open>_send_tcp(to, payload)\<close>: the value of \<^verbatim>\<open>data\<close>
  and the log records it writes (\<^verbatim>\<open>logging.error(error_description)\<close> writes one
  at the level \<open>ERROR\<close>), or the exception.
\<close>

definition send_tcp_try ::
  "tcp_env \<Rightarrow> string \<times> int option \<Rightarrow> string \<Rightarrow> py_error + xml \<times> (log_level \<times> xml) list" where
  "send_tcp_try env to payload =
     (case connect_error env to of
        Some e \<Rightarrow> Inl e
      | None \<Rightarrow>
          (case sendall_error env (utf8_encode payload) of
             Some e \<Rightarrow> Inl e
           | None \<Rightarrow>
               (case received env of
                  Inl e \<Rightarrow> Inl e
                | Inr text \<Rightarrow>
                    let data = Dict (xml2dict (unescape_xml text) True)
                    in case xpath data fault_path of
                         Inl e \<Rightarrow> Inl e
                       | Inr None \<Rightarrow> Inr (data, [])
                       | Inr (Some error_description) \<Rightarrow>
                           Inr (data, [(ERROR, error_description)]))))"

text \<open>
  \<^verbatim>\<open>_send_tcp(to, payload)\<close>: \<^verbatim>\<open>except Exception: data = ''\<close>. Only a failure
  to make the socket, outside the \<^verbatim>\<open>try\<close> block, leaves the function as an
  exception.
\<close>

definition send_tcp ::
  "tcp_env \<Rightarrow> string \<times> int option \<Rightarrow> string \<Rightarrow> py_error + xml \<times> (log_level \<times> xml) list" where
  "send_tcp env to payload =
     (case socket_error env of
        Some e \<Rightarrow> Inl e
      | None \<Rightarrow>
          (case send_tcp_try env to payload of
             Inl e \<Rightarrow> Inr (Str [], [])
           | Inr r \<Rightarrow> Inr r))"

text \<open>A response that carries a SOAP fault, and a network that delivers a response.\<close>

definition sample_fault :: string where
  "sample_fault =
     ''HTTP/1.1 500 Internal Server Error'' @ [CHR 0x0D, CHR 0x0A] @
     ''Content-Type: text/xml'' @ [CHR 0x0D, CHR 0x0A] @ [CHR 0x0D, CHR 0x0A] @
     ''<s:Envelope><s:Body><s:Fault><faultcode>s:Client</faultcode><detail><UPnPError>'' @
     ''<errorCode>401</errorCode><errorDescription>Invalid Action</errorDescription>'' @
     ''</UPnPError></detail></s:Fault></s:Body></s:Envelope>''"

definition sample_tcp :: "py_error + string \<Rightarrow> tcp_env" where
  "sample_tcp r =
     \<lparr>socket_error = None, connect_error = (\<lambda>to. None), sendall_error = (\<lambda>bytes. None),
      received = r\<rparr>"

lemma sample_fault_description:
  "xpath (Dict (xml2dict (unescape_xml sample_fault) True)) fault_path =
     Inr (Some (Str ''Invalid Action''))"
  by code_simp

text \<open>
  Claim C5, as amended. \<^verbatim>\<open>socket.socket(...)\<close> stands before the \<^verbatim>\<open>try\<close>
  block: when the socket cannot be made, \<^verbatim>\<open>_send_tcp\<close> raises. Once the socket is
  made it returns and never raises: when \<^verbatim>\<open>connect\<close>, \<^verbatim>\<open>sendall\<close>,
  \<^verbatim>\<open>recv\<close> or the decoding fails it returns the empty string, and nothing is
  logged. When the parsed response has a description at the fault path, the parsed
  response is returned and the description is written to the log, in one record at the
  level \<open>ERROR\<close>; a parsed response without one is returned with nothing logged.
\<close>

theorem send_tcp_swallows_failures:
  "(socket_error env = Some e \<longrightarrow> send_tcp env to payload = Inl e) \<and>
   (socket_error env = None \<and> connect_error env to = Some e \<longrightarrow>
      send_tcp env to payload = Inr (Str [], [])) \<and>
   (socket_error env = None \<and> connect_error env to = None \<and>
    sendall_error env (utf8_encode payload) = Some e \<longrightarrow>
      send_tcp env to payload = Inr (Str [], [])) \<and>
   (socket_error env = None \<and> connect_error env to = None \<and>
    sendall_error env (utf8_encode payload) = None \<and> received env = Inl e \<longrightarrow>
      send_tcp env to payload = Inr (Str [], [])) \<and>
   (socket_error env = None \<and> connect_error env to = None \<and>
    sendall_error env (utf8_encode payload) = None \<and> received env = Inr text \<and>
    xpath (Dict (xml2dict (unescape_xml text) True)) fault_path = Inr (Some description) \<longrightarrow>
      send_tcp env to payload =
        Inr (Dict (xml2dict (unescape_xml text) True), [(ERROR, description)])) \<and>
   (socket_error env = None \<and> connect_error env to = None \<and>
    sendall_error env (utf8_encode payload) = None \<and> received env = Inr text \<and>
    xpath (Dict (xml2dict (unescape_xml text) True)) fault_path = Inr None \<longrightarrow>
      send_tcp env to payload = Inr (Dict (xml2dict (unescape_xml text) True), [])) \<and>
   (socket_error env = None \<longrightarrow> (\<exists>r. send_tcp env to payload = Inr r))"
  by (auto simp: send_tcp_def send_tcp_try_def Let_def split: option.splits sum.splits)

lemma no_fault_description:
  "xpath (Dict (xml2dict (unescape_xml ''<s:Envelope><s:Body>ok</s:Body></s:Envelope>'') True))
     fault_path = Inr None"
  by code_simp

theorem send_tcp_swallows_failures_witness:
  "send_tcp (sample_tcp (Inr sample_fault)\<lparr>socket_error := Some OSError\<rparr>)
     (''192.168.1.50'', Some 80) ''x'' = Inl OSError \<and>
   send_tcp (sample_tcp (Inr sample_fault)\<lparr>connect_error := (\<lambda>to. Some OSError)\<rparr>)
     (''192.168.1.50'', Some 80) ''x'' = Inr (Str [], []) \<and>
   send_tcp (sample_tcp (Inr sample_fault)\<lparr>sendall_error := (\<lambda>bytes. Some OSError)\<rparr>)
     (''192.168.1.50'', Some 80) ''x'' = Inr (Str [], []) \<and>
   send_tcp (sample_tcp (Inl UnicodeDecodeError))
     (''192.168.1.50'', Some 80) ''x'' = Inr (Str [], []) \<and>
   send_tcp (sample_tcp (Inr sample_fault)) (''192.168.1.50'', Some 80) ''x'' =
     Inr (Dict (xml2dict (unescape_xml sample_fault) True), [(ERROR, Str ''Invalid Action'')]) \<and>
   send_tcp (sample_tcp (Inr ''<s:Envelope><s:Body>ok</s:Body></s:Envelope>''))
     (''192.168.1.50'', Some 80) ''x'' =
     Inr (Dict (xml2dict (unescape_xml ''<s:Envelope><s:Body>ok</s:Body></s:Envelope>'') True),
          [])"
  using
    send_tcp_swallows_failures
      [of "sample_tcp (Inr sample_fault)\<lparr>socket_error := Some OSError\<rparr>"
          OSError "(''192.168.1.50'', Some 80)" "''x''"]
    send_tcp_swallows_failures
      [of "sample_tcp (Inr sample_fault)\<lparr>connect_error := (\<lambda>to. Some OSError)\<rparr>"
          OSError "(''192.168.1.50'', Some 80)" "''x''"]
    send_tcp_swallows_failures
      [of "sample_tcp (Inr sample_fault)\<lparr>sendall_error := (\<lambda>bytes. Some OSError)\<rparr>"
          OSError "(''192.168.1.50'', Some 80)" "''x''"]
    send_tcp_swallows_failures
      [of "sample_tcp (Inl UnicodeDecodeError)"
          UnicodeDecodeError "(''192.168.1.50'', Some 80)" "''x''"]
    send_tcp_swallows_failures
      [of "sample_tcp (Inr sample_fault)"
          _ "(''192.168.1.50'', Some 80)" "''x''" sample_fault "Str ''Invalid Action''"]
    send_tcp_swallows_failures
      [of "sample_tcp (Inr ''<s:Envelope><s:Body>ok</s:Body></s:Envelope>'')"
          _ "(''192.168.1.50'', Some 80)" "''x''"
          "''<s:Envelope><s:Body>ok</s:Body></s:Envelope>''"]
  by (simp add: sample_tcp_def sample_fault_description no_fault_description)

text \<open>
  Claim C5 as stated fails twice. A failure to make the socket is not swallowed: the call
  raises \<open>OSError\<close>. And the description of a SOAP fault is not logged as a warning: the
  record has the level \<open>ERROR\<close>.
\<close>

theorem send_tcp_raises_counterexample:
  "send_tcp (sample_tcp (Inr sample_fault)\<lparr>socket_error := Some OSError\<rparr>)
     (''192.168.1.50'', Some 80) ''x'' = Inl OSError \<and>
   map fst (snd (projr (send_tcp (sample_tcp (Inr sample_fault))
     (''192.168.1.50'', Some 80) ''x''))) = [ERROR] \<and>
   ERROR \<noteq> WARNING"
  by (simp add: send_tcp_def send_tcp_try_def sample_tcp_def sample_fault_description)

section \<open>Discovery\<close>

text \<open>\<^verbatim>\<open>DLNADevice.__eq__\<close>.\<close>

definition DLNADevice_eq :: "DLNADevice \<Rightarrow> DLNADevice \<Rightarrow> bool" where
  "DLNADevice_eq self d = (name self = name d \<and> ip self = ip d)"

text \<open>
  \<^verbatim>\<open>hash(device)\<close>. The class defines \<^verbatim>\<open>__eq__\<close> and no \<^verbatim>\<open>__hash__\<close>, so
  Python sets its \<^verbatim>\<open>__hash__\<close> to \<^verbatim>\<open>None\<close> and hashing an instance raises
  \<open>TypeError\<close> (unhashable type).
\<close>

definition DLNADevice_hash :: "DLNADevice \<Rightarrow> py_error + int" where
  "DLNADevice_hash d = Inl TypeError"

text \<open>
  The set \<^verbatim>\<open>devices\<close>, as the list of its elements in the order they were added.
  \<^verbatim>\<open>device in devices\<close> and \<^verbatim>\<open>devices.add(device)\<close> hash the device first.
\<close>

definition set_contains :: "DLNADevice list \<Rightarrow> DLNADevice \<Rightarrow> py_error + bool" where
  "set_contains devices device =
     (case DLNADevice_hash device of
        Inl e \<Rightarrow> Inl e
      | Inr h \<Rightarrow> Inr (list_ex (\<lambda>d. DLNADevice_eq d device) devices))"

definition set_add :: "DLNADevice list \<Rightarrow> DLNADevice \<Rightarrow> py_error + DLNADevice list" where
  "set_add devices device =
     (case DLNADevice_hash device of
        Inl e \<Rightarrow> Inl e
      | Inr h \<Rightarrow>
          Inr (if list_ex (\<lambda>d. DLNADevice_eq d device) devices then devices
               else devices @ [device]))"

text \<open>
  What \<^verbatim>\<open>select.select([sock], [], [sock], 1)\<close> returns in one round of the loop:
  the socket is readable, and then \<^verbatim>\<open>recvfrom\<close> gives a datagram from an address
  (the datagram stands here as what the constructor meets), or it is in the exceptional
  list, or neither.
\<close>

datatype select_result = Readable init_env string | Exceptional | Idle

text \<open>
  The network and the clock during one discovery: whether \<^verbatim>\<open>sendto\<close> fails, the
  value of \<^verbatim>\<open>time.monotonic()\<close> when the deadline is set, and for every round of the
  loop the value of \<^verbatim>\<open>time.monotonic()\<close> in its test and the result of
  \<^verbatim>\<open>select\<close>.
\<close>

record discovery_env =
  sendto_error :: "py_error option"
  clock_start :: real
  rounds :: "(real \<times> select_result) list"

text \<open>
  The body of the loop for a readable socket, on the set of devices and the list of the
  devices the callback was called with:
  \<^verbatim>\<open>
  device = DLNADevice(data, addr[0])
  device.ssdp_version = ssdp_version
  if device not in devices:
      if callable(callback): callback(device)
      devices.add(device)
  \<close>
\<close>

definition discovery_step ::
  "int \<Rightarrow> bool \<Rightarrow> init_env \<Rightarrow> string \<Rightarrow> DLNADevice list \<times> DLNADevice list \<Rightarrow>
   py_error + DLNADevice list \<times> DLNADevice list" where
  "discovery_step ssdp_v has_callback data addr state =
     (let device = (DLNADevice_init data addr)\<lparr>ssdp_version := ssdp_v\<rparr>
      in case set_contains (fst state) device of
           Inl e \<Rightarrow> Inl e
         | Inr True \<Rightarrow> Inr state
         | Inr False \<Rightarrow>
             (case set_add (fst state) device of
                Inl e \<Rightarrow> Inl e
              | Inr devices \<Rightarrow>
                  Inr (devices, if has_callback then snd state @ [device] else snd state)))"

text \<open>
  \<^verbatim>\<open>while keep_scanning and time.monotonic() < scan_for\<close>, over the rounds the
  environment gives; when they end the clock is past the deadline.
\<close>

fun discovery_loop ::
  "bool \<Rightarrow> real \<Rightarrow> int \<Rightarrow> bool \<Rightarrow> (real \<times> select_result) list \<Rightarrow>
   DLNADevice list \<times> DLNADevice list \<Rightarrow> py_error + DLNADevice list \<times> DLNADevice list" where
  "discovery_loop keep_scanning deadline ssdp_v has_callback [] state = Inr state"
| "discovery_loop keep_scanning deadline ssdp_v has_callback ((now, sel) # rest) state =
     (if keep_scanning \<and> now < deadline then
        (case sel of
           Readable data addr \<Rightarrow>
             (case discovery_step ssdp_v has_callback data addr state of
                Inl e \<Rightarrow> Inl e
              | Inr state' \<Rightarrow>
                  discovery_loop keep_scanning deadline ssdp_v has_callback rest state')
         | Exceptional \<Rightarrow> Inl DiscoveryError
         | Idle \<Rightarrow> discovery_loop keep_scanning deadline ssdp_v has_callback rest state)
      else Inr state)"

text \<open>
  \<^verbatim>\<open>_discovery()\<close> inside \<^verbatim>\<open>get_dlnas\<close>, for a value of the variable
  \<^verbatim>\<open>keep_scanning\<close>, and \<^verbatim>\<open>get_dlnas(scan_for, ..., ssdp_version, blocking=True,
  callback)\<close>, which sets \<^verbatim>\<open>keep_scanning = False\<close> and returns the set.
\<close>

definition discovery ::
  "discovery_env \<Rightarrow> bool \<Rightarrow> real \<Rightarrow> int \<Rightarrow> bool \<Rightarrow>
   py_error + DLNADevice list \<times> DLNADevice list" where
  "discovery env keep_scanning scan_for ssdp_v has_callback =
     (case sendto_error env of
        Some e \<Rightarrow> Inl e
      | None \<Rightarrow>
          discovery_loop keep_scanning (clock_start env + scan_for) ssdp_v has_callback
            (rounds env) ([], []))"

definition get_dlnas_blocking ::
  "discovery_env \<Rightarrow> real \<Rightarrow> int \<Rightarrow> bool \<Rightarrow> py_error + DLNADevice list" where
  "get_dlnas_blocking env scan_for ssdp_v has_callback =
     (let keep_scanning = False
      in case discovery env keep_scanning scan_for ssdp_v has_callback of
           Inl e \<Rightarrow> Inl e
         | Inr state \<Rightarrow> Inr (fst state))"

subsection \<open>Properties of the discovery\<close>

text \<open>
  Claim C1. \<^verbatim>\<open>get_dlnas\<close> sets \<^verbatim>\<open>keep_scanning = False\<close> and nothing sets it
  to true, so the test of the loop fails at once: whatever the network and the clock do,
  a blocking call returns the empty set (or the exception of \<^verbatim>\<open>sendto\<close>), and no
  datagram is ever read.
\<close>

theorem blocking_discovery_returns_nothing:
  "get_dlnas_blocking env scan_for ssdp_v has_callback =
     (case sendto_error env of Some e \<Rightarrow> Inl e | None \<Rightarrow> Inr [])"
  by (cases "rounds env"; cases "sendto_error env")
     (auto simp: get_dlnas_blocking_def discovery_def)

text \<open>
  For example a device that answers half a second after the request, with a scan of two
  seconds, is not in the result.
\<close>

lemma readable_datagram_ignored:
  "get_dlnas_blocking
     \<lparr>sendto_error = None, clock_start = 0,
      rounds = [(1 / 2, Readable \<lparr>raw_decode = Inr sample_response,
                                  urlopen_read = (\<lambda>l. Inr sample_description)\<rparr>
                          ''192.168.1.50'')]\<rparr>
     2 1 False = Inr []"
  by (simp add: get_dlnas_blocking_def discovery_def)

text \<open>
  Claim C2. Two devices with the same name and address and different control URLs compare
  equal, but they never meet in a set: the body of the loop raises \<open>TypeError\<close> at
  \<^verbatim>\<open>device not in devices\<close>, for every device and every set, because instances of
  the class cannot be hashed.
\<close>

theorem membership_test_raises:
  "discovery_step ssdp_v has_callback data addr state = Inl TypeError \<and>
   set_contains devices device = Inl TypeError \<and>
   set_add devices device = Inl TypeError \<and>
   DLNADevice_eq (sample_device\<lparr>control_url := Some (Str ''/a'')\<rparr>)
     (sample_device\<lparr>control_url := Some (Str ''/b'')\<rparr>)"
  by (simp add: discovery_step_def set_contains_def set_add_def DLNADevice_hash_def
        DLNADevice_eq_def)

end
